theory Spec2Isabelle
  imports Main "HOL-Library.Word"
begin

section \<open>Go values used by the server\<close>

text \<open>
  A Go \<open>error\<close> is either \<open>nil\<close> (\<open>None\<close>) or a value carrying a message.  The only
  errors built in \<open>src/sever/server.go\<close> come from \<open>fmt.Errorf\<close> with a constant
  format string, so an error is its message.  \<open>error_Error\<close> is the method
  \<open>err.Error()\<close>.
\<close>

datatype error = Errorf string

fun error_Error :: "error \<Rightarrow> string" where
  "error_Error (Errorf msg) = msg"

text \<open>
  The dynamic values that \<open>encoding/json\<close> stores into an \<open>interface{}\<close>: \<open>nil\<close>,
  \<open>bool\<close>, \<open>float64\<close>, \<open>string\<close>, \<open>[]interface{}\<close> and
  \<open>map[string]interface{}\<close>.  A \<open>float64\<close> is carried as its 64-bit pattern; no
  branch of the server inspects one.
\<close>

datatype interface =
    VNil
  | VBool bool
  | VFloat64 "64 word"
  | VString string
  | VSlice "interface list"
  | VMap "string \<Rightarrow> interface option"

text \<open>
  The type assertions \<open>x.(map[string]interface{})\<close> and \<open>x.(string)\<close> in their
  single-result form: they panic (\<open>None\<close>) when the dynamic type differs, which
  includes the \<open>nil\<close> interface.
\<close>

fun assert_map :: "interface \<Rightarrow> (string \<Rightarrow> interface option) option" where
  "assert_map (VMap m) = Some m"
| "assert_map _ = None"

fun assert_string :: "interface \<Rightarrow> string option" where
  "assert_string (VString s) = Some s"
| "assert_string _ = None"

text \<open>Indexing a Go map: a missing key yields the zero value, the \<open>nil\<close> interface.\<close>

definition map_index :: "(string \<Rightarrow> interface option) \<Rightarrow> string \<Rightarrow> interface" where
  "map_index m k = (case m k of None \<Rightarrow> VNil | Some v \<Rightarrow> v)"

section \<open>The storage engine\<close>

text \<open>
  \<open>InMemoryStorage\<close> holds the map \<open>data\<close>.  The lock \<open>mu\<close> serialises the
  methods; the model is sequential, each method a function from the store to its
  results and the store afterwards.
\<close>

record InMemoryStorage =
  data :: "string \<Rightarrow> string option"

definition NewInMemoryStorage :: InMemoryStorage where
  "NewInMemoryStorage = \<lparr>data = Map.empty\<rparr>"

definition InMemoryStorage_Get ::
  "InMemoryStorage \<Rightarrow> string \<Rightarrow> (string \<times> error option) \<times> InMemoryStorage" where
  "InMemoryStorage_Get s key =
     (case data s key of
        None \<Rightarrow> (([], Some (Errorf ''key not found'')), s)
      | Some v \<Rightarrow> ((v, None), s))"

definition InMemoryStorage_Post ::
  "InMemoryStorage \<Rightarrow> string \<Rightarrow> string \<Rightarrow> error option \<times> InMemoryStorage" where
  "InMemoryStorage_Post s key v = (None, s\<lparr>data := (data s)(key \<mapsto> v)\<rparr>)"

definition InMemoryStorage_Put ::
  "InMemoryStorage \<Rightarrow> string \<Rightarrow> string \<Rightarrow> error option \<times> InMemoryStorage" where
  "InMemoryStorage_Put s key v = (None, s\<lparr>data := (data s)(key \<mapsto> v)\<rparr>)"

definition InMemoryStorage_Delete ::
  "InMemoryStorage \<Rightarrow> string \<Rightarrow> error option \<times> InMemoryStorage" where
  "InMemoryStorage_Delete s key = (None, s\<lparr>data := (data s)(key := None)\<rparr>)"

text \<open>
  The interface \<open>Storage\<close>: a table of the four methods over some store type.  A
  method may change the receiver, so each returns the store afterwards.
\<close>

record 's Storage =
  Get :: "'s \<Rightarrow> string \<Rightarrow> (string \<times> error option) \<times> 's"
  Post :: "'s \<Rightarrow> string \<Rightarrow> string \<Rightarrow> error option \<times> 's"
  Put :: "'s \<Rightarrow> string \<Rightarrow> string \<Rightarrow> error option \<times> 's"
  Delete :: "'s \<Rightarrow> string \<Rightarrow> error option \<times> 's"

definition InMemoryStorage_methods :: "InMemoryStorage Storage" where
  "InMemoryStorage_methods =
     \<lparr>Get = InMemoryStorage_Get, Post = InMemoryStorage_Post,
      Put = InMemoryStorage_Put, Delete = InMemoryStorage_Delete\<rparr>"

section \<open>The JSON-RPC dispatcher\<close>

text \<open>
  Modelled from the spec: the envelope types \<open>RPCRequest\<close>, \<open>RPCResponse\<close> and
  \<open>RPCError\<close> of the imported package \<open>jsonrpc\<close>, whose declarations are not under
  \<open>src/\<close>.  The request has a method name, parameters of open shape and a
  correlation id; the response echoes the id and has a result and an error, each
  possibly absent (\<open>VNil\<close>, \<open>None\<close>); an error has an integer code and a message.
\<close>

record RPCRequest =
  req_Method :: string
  req_Params :: interface
  req_ID :: int
  req_JSONRPC :: string

record RPCError =
  err_Code :: int
  err_Message :: string

record RPCResponse =
  res_JSONRPC :: string
  res_Result :: interface
  res_Error :: "RPCError option"
  res_ID :: int

text \<open>
  What one call of \<open>HandleRequest\<close> does to the connection: it answers with
  \<open>http.Error\<close> (message and status), it panics in a type assertion before
  anything is written, or it encodes the response \<open>res\<close>.  Writing the encoded
  bytes to the connection is input/output outside the model.
\<close>

datatype outcome =
    HttpError string nat
  | Panic
  | Encoded RPCResponse

text \<open>
  \<open>HandleRequest\<close>.  The body is given as the result of decoding it into an
  \<open>RPCRequest\<close> (\<open>None\<close> when \<open>Decode\<close> returns an error).  A panic leaves the
  function at the assertion, before the storage call of that branch.
\<close>

definition HandleRequest ::
  "'s Storage \<Rightarrow> 's \<Rightarrow> RPCRequest option \<Rightarrow> outcome \<times> 's" where
  "HandleRequest storage s body =
     (case body of
        None \<Rightarrow> (HttpError ''Invalid request'' 400, s)
      | Some req \<Rightarrow>
          (let res = \<lparr>res_JSONRPC = ''2.0'', res_Result = VNil, res_Error = None,
                      res_ID = req_ID req\<rparr>
           in if req_Method req = ''get'' then
                (case assert_map (req_Params req) of
                   None \<Rightarrow> (Panic, s)
                 | Some params \<Rightarrow>
                     (case assert_string (map_index params ''key'') of
                        None \<Rightarrow> (Panic, s)
                      | Some key \<Rightarrow>
                          (case Get storage s key of
                             ((v, Some e), s') \<Rightarrow>
                               (Encoded (res\<lparr>res_Error :=
                                  Some \<lparr>err_Code = 1, err_Message = error_Error e\<rparr>\<rparr>), s')
                           | ((v, None), s') \<Rightarrow>
                               (Encoded (res\<lparr>res_Result := VString v\<rparr>), s'))))
              else if req_Method req = ''post'' then
                (case assert_map (req_Params req) of
                   None \<Rightarrow> (Panic, s)
                 | Some params \<Rightarrow>
                     (case assert_string (map_index params ''key'') of
                        None \<Rightarrow> (Panic, s)
                      | Some key \<Rightarrow>
                          (case assert_string (map_index params ''value'') of
                             None \<Rightarrow> (Panic, s)
                           | Some v \<Rightarrow>
                               (case Post storage s key v of
                                  (Some e, s') \<Rightarrow>
                                    (Encoded (res\<lparr>res_Error :=
                                       Some \<lparr>err_Code = 1, err_Message = error_Error e\<rparr>\<rparr>), s')
                                | (None, s') \<Rightarrow>
                                    (Encoded (res\<lparr>res_Result := VString ''success''\<rparr>), s')))))
              else if req_Method req = ''put'' then
                (case assert_map (req_Params req) of
                   None \<Rightarrow> (Panic, s)
                 | Some params \<Rightarrow>
                     (case assert_string (map_index params ''key'') of
                        None \<Rightarrow> (Panic, s)
                      | Some key \<Rightarrow>
                          (case assert_string (map_index params ''value'') of
                             None \<Rightarrow> (Panic, s)
                           | Some v \<Rightarrow>
                               (case Put storage s key v of
                                  (Some e, s') \<Rightarrow>
                                    (Encoded (res\<lparr>res_Error :=
                                       Some \<lparr>err_Code = 1, err_Message = error_Error e\<rparr>\<rparr>), s')
                                | (None, s') \<Rightarrow>
                                    (Encoded (res\<lparr>res_Result := VString ''success''\<rparr>), s')))))
              else if req_Method req = ''delete'' then
                (case assert_map (req_Params req) of
                   None \<Rightarrow> (Panic, s)
                 | Some params \<Rightarrow>
                     (case assert_string (map_index params ''key'') of
                        None \<Rightarrow> (Panic, s)
                      | Some key \<Rightarrow>
                          (case Delete storage s key of
                             (Some e, s') \<Rightarrow>
                               (Encoded (res\<lparr>res_Error :=
                                  Some \<lparr>err_Code = 1, err_Message = error_Error e\<rparr>\<rparr>), s')
                           | (None, s') \<Rightarrow>
                               (Encoded (res\<lparr>res_Result := VString ''success''\<rparr>), s'))))
              else
                (Encoded (res\<lparr>res_Error :=
                   Some \<lparr>err_Code = - 32601, err_Message = ''Method not found''\<rparr>\<rparr>), s)))"

section \<open>Histories of storage operations\<close>

text \<open>
  A history is a list of calls on one store, run in order.  \<open>never_written k ops\<close>
  says that no \<open>Post\<close> or \<open>Put\<close> of \<open>k\<close> occurs in \<open>ops\<close>; \<open>last_deleted k ops\<close>
  says that among the calls of \<open>ops\<close> that change \<open>k\<close> (\<open>Post\<close>, \<open>Put\<close>, \<open>Delete\<close>)
  the last one is a \<open>Delete\<close>.
\<close>

datatype storage_op =
    OpGet string
  | OpPost string string
  | OpPut string string
  | OpDelete string

fun storage_step :: "InMemoryStorage \<Rightarrow> storage_op \<Rightarrow> InMemoryStorage" where
  "storage_step s (OpGet k) = snd (InMemoryStorage_Get s k)"
| "storage_step s (OpPost k v) = snd (InMemoryStorage_Post s k v)"
| "storage_step s (OpPut k v) = snd (InMemoryStorage_Put s k v)"
| "storage_step s (OpDelete k) = snd (InMemoryStorage_Delete s k)"

definition run_ops :: "InMemoryStorage \<Rightarrow> storage_op list \<Rightarrow> InMemoryStorage" where
  "run_ops s ops = foldl storage_step s ops"

fun writes :: "string \<Rightarrow> storage_op \<Rightarrow> bool" where
  "writes k (OpPost k' v) = (k' = k)"
| "writes k (OpPut k' v) = (k' = k)"
| "writes k _ = False"

fun mutates :: "string \<Rightarrow> storage_op \<Rightarrow> bool" where
  "mutates k (OpDelete k') = (k' = k)"
| "mutates k x = writes k x"

definition never_written :: "string \<Rightarrow> storage_op list \<Rightarrow> bool" where
  "never_written k ops = (filter (writes k) ops = [])"

definition last_deleted :: "string \<Rightarrow> storage_op list \<Rightarrow> bool" where
  "last_deleted k ops =
     (case rev (filter (mutates k) ops) of [] \<Rightarrow> False | x # _ \<Rightarrow> x = OpDelete k)"

section \<open>Parameter extraction\<close>

text \<open>
  The expression \<open>req.Params.(map[string]interface{})[name].(string)\<close> of the
  \<open>get\<close> and \<open>delete\<close> branches, which the \<open>post\<close> and \<open>put\<close> branches evaluate
  in two statements for \<open>key\<close> and \<open>value\<close>: \<open>None\<close> when either assertion panics,
  that is when the parameters are not an object, the field is missing, or the field
  is not a string.
\<close>

definition params_string :: "interface \<Rightarrow> string \<Rightarrow> string option" where
  "params_string p name =
     (case assert_map p of None \<Rightarrow> None | Some m \<Rightarrow> assert_string (map_index m name))"

section \<open>Storage laws\<close>

lemma Get_absent:
  "data s k = None \<Longrightarrow>
   InMemoryStorage_Get s k = (([], Some (Errorf ''key not found'')), s)"
  by (simp add: InMemoryStorage_Get_def)

lemma Delete_result:
  "InMemoryStorage_Delete s k = (None, s\<lparr>data := (data s)(k := None)\<rparr>)"
  by (simp add: InMemoryStorage_Delete_def)

lemma Delete_absent_same: "data s k = None \<Longrightarrow> snd (InMemoryStorage_Delete s k) = s"
proof -
  assume "data s k = None"
  then have "(data s)(k := None) = data s"
    by (simp add: fun_upd_idem)
  then show ?thesis
    by (simp add: InMemoryStorage_Delete_def)
qed

text \<open>
  C2: on every store, for every key \<open>k\<close> and value \<open>v\<close>, \<open>Post(k, v)\<close> followed by
  \<open>Get(k)\<close> on the resulting store succeeds (the error is \<open>nil\<close>) and returns \<open>v\<close>.
\<close>

theorem C2_post_then_get:
  "fst (InMemoryStorage_Get (snd (InMemoryStorage_Post s k v)) k) = (v, None)"
  by (simp add: InMemoryStorage_Get_def InMemoryStorage_Post_def)

text \<open>
  C4: on every store, for every key \<open>k\<close> and values \<open>v1\<close>, \<open>v2\<close>, \<open>Put(k, v1)\<close> then
  \<open>Put(k, v2)\<close> then \<open>Get(k)\<close> returns \<open>v2\<close> with no error: the last write wins.
\<close>

theorem C4_put_put_get:
  "fst (InMemoryStorage_Get
         (snd (InMemoryStorage_Put (snd (InMemoryStorage_Put s k v1)) k v2)) k) = (v2, None)"
  by (simp add: InMemoryStorage_Get_def InMemoryStorage_Put_def)

text \<open>
  C8: \<open>Post\<close> and \<open>Put\<close> are behaviourally identical: on every store, key and value
  they return the same error value and the same resulting store; both return \<open>nil\<close>
  and leave the store mapping \<open>k\<close> to \<open>v\<close> (insert or overwrite).
\<close>

theorem C8_post_put_identical:
  "InMemoryStorage_Post s k v = InMemoryStorage_Put s k v
   \<and> fst (InMemoryStorage_Post s k v) = None
   \<and> data (snd (InMemoryStorage_Post s k v)) = (data s)(k \<mapsto> v)"
  by (simp add: InMemoryStorage_Post_def InMemoryStorage_Put_def)

text \<open>
  C10 (frame): for keys \<open>k \<noteq> k'\<close>, \<open>Post(k, v)\<close>, \<open>Put(k, v)\<close> and \<open>Delete(k)\<close> leave
  the mapping of \<open>k'\<close> as it was, and \<open>Get(k)\<close> returns the whole store unchanged.
\<close>

theorem C10_frame:
  "k \<noteq> k' \<Longrightarrow>
     data (snd (InMemoryStorage_Post s k v)) k' = data s k'
   \<and> data (snd (InMemoryStorage_Put s k v)) k' = data s k'
   \<and> data (snd (InMemoryStorage_Delete s k)) k' = data s k'
   \<and> snd (InMemoryStorage_Get s k) = s"
  by (simp add: InMemoryStorage_Get_def InMemoryStorage_Post_def InMemoryStorage_Put_def
      InMemoryStorage_Delete_def split: option.splits)

theorem C10_frame_witness:
  "''a'' \<noteq> ''b''
   \<and> data (snd (InMemoryStorage_Post \<lparr>data = [''b'' \<mapsto> ''1'']\<rparr> ''a'' ''2'')) ''b''
       = Some ''1''
   \<and> data (snd (InMemoryStorage_Put \<lparr>data = [''b'' \<mapsto> ''1'']\<rparr> ''a'' ''2'')) ''b''
       = Some ''1''
   \<and> data (snd (InMemoryStorage_Delete \<lparr>data = [''b'' \<mapsto> ''1'']\<rparr> ''a'')) ''b''
       = Some ''1''
   \<and> snd (InMemoryStorage_Get \<lparr>data = [''b'' \<mapsto> ''1'']\<rparr> ''a'')
       = \<lparr>data = [''b'' \<mapsto> ''1'']\<rparr>"
proof -
  have h: "''a'' \<noteq> ''b''" by simp
  show ?thesis
    using h C10_frame [OF h, of "\<lparr>data = [''b'' \<mapsto> ''1'']\<rparr>" "''2''"]
    by simp
qed

subsection \<open>Absent keys\<close>

lemma storage_step_other: "\<not> mutates k x \<Longrightarrow> data (storage_step s x) k = data s k"
  by (cases x)
    (auto simp: InMemoryStorage_Get_def InMemoryStorage_Post_def InMemoryStorage_Put_def
      InMemoryStorage_Delete_def split: option.splits)

lemma run_ops_snoc: "run_ops s (ops @ [x]) = storage_step (run_ops s ops) x"
  by (simp add: run_ops_def)

lemma last_deleted_absent: "last_deleted k ops \<Longrightarrow> data (run_ops s ops) k = None"
proof (induction ops rule: rev_induct)
  case Nil
  then show ?case by (simp add: last_deleted_def)
next
  case (snoc x ops)
  show ?case
  proof (cases "mutates k x")
    case True
    with snoc.prems have "x = OpDelete k"
      by (simp add: last_deleted_def)
    then show ?thesis
      by (simp add: run_ops_snoc InMemoryStorage_Delete_def)
  next
    case False
    with snoc.prems have "last_deleted k ops"
      by (simp add: last_deleted_def)
    with snoc.IH False show ?thesis
      by (simp add: run_ops_snoc storage_step_other)
  qed
qed

lemma never_written_absent:
  "never_written k ops \<Longrightarrow> data s k = None \<Longrightarrow> data (run_ops s ops) k = None"
proof (induction ops rule: rev_induct)
  case Nil
  then show ?case by (simp add: run_ops_def)
next
  case (snoc x ops)
  from snoc.prems have nw: "never_written k ops" and nx: "\<not> writes k x"
    by (auto simp: never_written_def split: if_splits)
  show ?case
  proof (cases "mutates k x")
    case True
    with nx have "x = OpDelete k"
      by (cases x) auto
    then show ?thesis
      by (simp add: run_ops_snoc InMemoryStorage_Delete_def)
  next
    case False
    with snoc.IH nw snoc.prems(2) show ?thesis
      by (simp add: run_ops_snoc storage_step_other)
  qed
qed

text \<open>
  C3: \<open>Get(k)\<close> fails with the error \<open>key not found\<close> (and the empty string as
  value) whenever \<open>k\<close> is absent from the store; in particular right after
  \<open>Delete(k)\<close> on any store, after any history from the new store that never wrote
  \<open>k\<close>, and after any history on any store whose last change of \<open>k\<close> is a \<open>Delete\<close>.
\<close>

theorem C3_get_absent:
  "(data s k = None \<longrightarrow>
      fst (InMemoryStorage_Get s k) = ([], Some (Errorf ''key not found'')))
   \<and> fst (InMemoryStorage_Get (snd (InMemoryStorage_Delete s k)) k)
       = ([], Some (Errorf ''key not found''))
   \<and> (never_written k ops \<longrightarrow>
        fst (InMemoryStorage_Get (run_ops NewInMemoryStorage ops) k)
          = ([], Some (Errorf ''key not found'')))
   \<and> (last_deleted k ops \<longrightarrow>
        fst (InMemoryStorage_Get (run_ops s ops) k)
          = ([], Some (Errorf ''key not found'')))"
proof -
  have "data NewInMemoryStorage k = None"
    by (simp add: NewInMemoryStorage_def)
  then have "never_written k ops \<Longrightarrow> data (run_ops NewInMemoryStorage ops) k = None"
    by (rule never_written_absent[rotated])
  moreover have "data (snd (InMemoryStorage_Delete s k)) k = None"
    by (simp add: InMemoryStorage_Delete_def)
  ultimately show ?thesis
    by (simp add: Get_absent last_deleted_absent)
qed

theorem C3_get_absent_witness:
  "data NewInMemoryStorage ''a'' = None
   \<and> fst (InMemoryStorage_Get NewInMemoryStorage ''a'')
       = ([], Some (Errorf ''key not found''))
   \<and> never_written ''a'' [OpPost ''b'' ''1'', OpGet ''a'', OpDelete ''a'']
   \<and> fst (InMemoryStorage_Get
            (run_ops NewInMemoryStorage [OpPost ''b'' ''1'', OpGet ''a'', OpDelete ''a''])
            ''a'')
       = ([], Some (Errorf ''key not found''))
   \<and> last_deleted ''a'' [OpPost ''a'' ''1'', OpDelete ''a'', OpGet ''a'', OpPut ''b'' ''2'']
   \<and> fst (InMemoryStorage_Get
            (run_ops \<lparr>data = [''a'' \<mapsto> ''0'']\<rparr>
               [OpPost ''a'' ''1'', OpDelete ''a'', OpGet ''a'', OpPut ''b'' ''2''])
            ''a'')
       = ([], Some (Errorf ''key not found''))"
proof -
  have h1: "data NewInMemoryStorage ''a'' = None"
    by (simp add: NewInMemoryStorage_def)
  have h2: "never_written ''a'' [OpPost ''b'' ''1'', OpGet ''a'', OpDelete ''a'']"
    by (simp add: never_written_def)
  have h3: "last_deleted ''a''
              [OpPost ''a'' ''1'', OpDelete ''a'', OpGet ''a'', OpPut ''b'' ''2'']"
    by (simp add: last_deleted_def)
  show ?thesis
    using h1 h2 h3
      C3_get_absent [of NewInMemoryStorage "''a''"
        "[OpPost ''b'' ''1'', OpGet ''a'', OpDelete ''a'']"]
      C3_get_absent [of "\<lparr>data = [''a'' \<mapsto> ''0'']\<rparr>" "''a''"
        "[OpPost ''a'' ''1'', OpDelete ''a'', OpGet ''a'', OpPut ''b'' ''2'']"]
    by simp
qed

section \<open>Dispatcher laws\<close>

subsection \<open>The five branches of the switch\<close>

lemma HandleRequest_default:
  "req_Method req \<noteq> ''get'' \<Longrightarrow> req_Method req \<noteq> ''post'' \<Longrightarrow>
   req_Method req \<noteq> ''put'' \<Longrightarrow> req_Method req \<noteq> ''delete'' \<Longrightarrow>
   HandleRequest storage s (Some req) =
     (Encoded \<lparr>res_JSONRPC = ''2.0'', res_Result = VNil,
        res_Error = Some \<lparr>err_Code = - 32601, err_Message = ''Method not found''\<rparr>,
        res_ID = req_ID req\<rparr>, s)"
  by (simp add: HandleRequest_def)

lemma HandleRequest_get:
  "req_Method req = ''get'' \<Longrightarrow>
   HandleRequest storage s (Some req) =
     (case params_string (req_Params req) ''key'' of
        None \<Rightarrow> (Panic, s)
      | Some key \<Rightarrow>
          (case Get storage s key of
             ((v, Some e), s') \<Rightarrow>
               (Encoded \<lparr>res_JSONRPC = ''2.0'', res_Result = VNil,
                  res_Error = Some \<lparr>err_Code = 1, err_Message = error_Error e\<rparr>,
                  res_ID = req_ID req\<rparr>, s')
           | ((v, None), s') \<Rightarrow>
               (Encoded \<lparr>res_JSONRPC = ''2.0'', res_Result = VString v,
                  res_Error = None, res_ID = req_ID req\<rparr>, s')))"
  by (simp add: HandleRequest_def params_string_def split: option.splits prod.splits)

lemma HandleRequest_delete:
  "req_Method req = ''delete'' \<Longrightarrow>
   HandleRequest storage s (Some req) =
     (case params_string (req_Params req) ''key'' of
        None \<Rightarrow> (Panic, s)
      | Some key \<Rightarrow>
          (case Delete storage s key of
             (Some e, s') \<Rightarrow>
               (Encoded \<lparr>res_JSONRPC = ''2.0'', res_Result = VNil,
                  res_Error = Some \<lparr>err_Code = 1, err_Message = error_Error e\<rparr>,
                  res_ID = req_ID req\<rparr>, s')
           | (None, s') \<Rightarrow>
               (Encoded \<lparr>res_JSONRPC = ''2.0'', res_Result = VString ''success'',
                  res_Error = None, res_ID = req_ID req\<rparr>, s')))"
  by (simp add: HandleRequest_def params_string_def split: option.splits prod.splits)

lemma HandleRequest_post:
  "req_Method req = ''post'' \<Longrightarrow>
   HandleRequest storage s (Some req) =
     (case params_string (req_Params req) ''key'' of
        None \<Rightarrow> (Panic, s)
      | Some key \<Rightarrow>
          (case params_string (req_Params req) ''value'' of
             None \<Rightarrow> (Panic, s)
           | Some v \<Rightarrow>
               (case Post storage s key v of
                  (Some e, s') \<Rightarrow>
                    (Encoded \<lparr>res_JSONRPC = ''2.0'', res_Result = VNil,
                       res_Error = Some \<lparr>err_Code = 1, err_Message = error_Error e\<rparr>,
                       res_ID = req_ID req\<rparr>, s')
                | (None, s') \<Rightarrow>
                    (Encoded \<lparr>res_JSONRPC = ''2.0'', res_Result = VString ''success'',
                       res_Error = None, res_ID = req_ID req\<rparr>, s'))))"
  by (simp add: HandleRequest_def params_string_def split: option.splits prod.splits)

lemma HandleRequest_put:
  "req_Method req = ''put'' \<Longrightarrow>
   HandleRequest storage s (Some req) =
     (case params_string (req_Params req) ''key'' of
        None \<Rightarrow> (Panic, s)
      | Some key \<Rightarrow>
          (case params_string (req_Params req) ''value'' of
             None \<Rightarrow> (Panic, s)
           | Some v \<Rightarrow>
               (case Put storage s key v of
                  (Some e, s') \<Rightarrow>
                    (Encoded \<lparr>res_JSONRPC = ''2.0'', res_Result = VNil,
                       res_Error = Some \<lparr>err_Code = 1, err_Message = error_Error e\<rparr>,
                       res_ID = req_ID req\<rparr>, s')
                | (None, s') \<Rightarrow>
                    (Encoded \<lparr>res_JSONRPC = ''2.0'', res_Result = VString ''success'',
                       res_Error = None, res_ID = req_ID req\<rparr>, s'))))"
  by (simp add: HandleRequest_def params_string_def split: option.splits prod.splits)

subsection \<open>The delete branch\<close>

text \<open>
  C1 as stated does not hold of the code: \<open>Delete\<close> calls the builtin \<open>delete\<close>, which
  does nothing for an absent key, and returns \<open>nil\<close>.  On the new store, where
  \<open>a\<close> is absent, \<open>Delete(a)\<close> returns no error and the dispatcher answers the
  \<open>delete\<close> request with the result \<open>success\<close> and no error.
\<close>

theorem C1_delete_absent_counterexample:
  "data NewInMemoryStorage ''a'' = None
   \<and> fst (InMemoryStorage_Delete NewInMemoryStorage ''a'') = None
   \<and> fst (HandleRequest InMemoryStorage_methods NewInMemoryStorage
            (Some \<lparr>req_Method = ''delete'', req_Params = VMap [''key'' \<mapsto> VString ''a''],
                    req_ID = 7, req_JSONRPC = ''2.0''\<rparr>))
       = Encoded \<lparr>res_JSONRPC = ''2.0'', res_Result = VString ''success'',
                   res_Error = None, res_ID = 7\<rparr>"
  by (simp add: NewInMemoryStorage_def InMemoryStorage_Delete_def HandleRequest_def
      InMemoryStorage_methods_def map_index_def)

text \<open>
  C1, amended: on every store and for every key \<open>k\<close>, present or absent, \<open>Delete(k)\<close>
  returns no error and leaves the store without \<open>k\<close>; when \<open>k\<close> is absent the store
  is unchanged; and the dispatcher's \<open>delete\<close> branch, once the key is extracted,
  answers with the result \<open>success\<close> and no error.
\<close>

theorem C1_delete_always_succeeds:
  "fst (InMemoryStorage_Delete s k) = None
   \<and> data (snd (InMemoryStorage_Delete s k)) = (data s)(k := None)
   \<and> (data s k = None \<longrightarrow> snd (InMemoryStorage_Delete s k) = s)
   \<and> (req_Method req = ''delete'' \<longrightarrow> params_string (req_Params req) ''key'' = Some k \<longrightarrow>
        HandleRequest InMemoryStorage_methods s (Some req) =
          (Encoded \<lparr>res_JSONRPC = ''2.0'', res_Result = VString ''success'',
                     res_Error = None, res_ID = req_ID req\<rparr>,
           snd (InMemoryStorage_Delete s k)))"
proof -
  have "req_Method req = ''delete'' \<Longrightarrow> params_string (req_Params req) ''key'' = Some k \<Longrightarrow>
        HandleRequest InMemoryStorage_methods s (Some req) =
          (Encoded \<lparr>res_JSONRPC = ''2.0'', res_Result = VString ''success'',
                     res_Error = None, res_ID = req_ID req\<rparr>,
           snd (InMemoryStorage_Delete s k))"
    by (simp add: HandleRequest_delete InMemoryStorage_methods_def Delete_result)
  moreover have "fst (InMemoryStorage_Delete s k) = None"
    and "data (snd (InMemoryStorage_Delete s k)) = (data s)(k := None)"
    by (simp_all add: Delete_result)
  moreover have "data s k = None \<longrightarrow> snd (InMemoryStorage_Delete s k) = s"
    by (simp add: Delete_absent_same)
  ultimately show ?thesis
    by blast
qed

theorem C1_delete_always_succeeds_witness:
  "fst (InMemoryStorage_Delete NewInMemoryStorage ''a'') = None
   \<and> data NewInMemoryStorage ''a'' = None
   \<and> snd (InMemoryStorage_Delete NewInMemoryStorage ''a'') = NewInMemoryStorage
   \<and> params_string (VMap [''key'' \<mapsto> VString ''a'']) ''key'' = Some ''a''
   \<and> HandleRequest InMemoryStorage_methods NewInMemoryStorage
        (Some \<lparr>req_Method = ''delete'', req_Params = VMap [''key'' \<mapsto> VString ''a''],
                req_ID = 7, req_JSONRPC = ''2.0''\<rparr>)
       = (Encoded \<lparr>res_JSONRPC = ''2.0'', res_Result = VString ''success'',
                    res_Error = None, res_ID = 7\<rparr>, NewInMemoryStorage)"
proof -
  have h1: "data NewInMemoryStorage ''a'' = None"
    by (simp add: NewInMemoryStorage_def)
  have h2: "params_string (VMap [''key'' \<mapsto> VString ''a'']) ''key'' = Some ''a''"
    by (simp add: params_string_def map_index_def)
  show ?thesis
    using h1 h2
      C1_delete_always_succeeds [of NewInMemoryStorage "''a''"
        "\<lparr>req_Method = ''delete'', req_Params = VMap [''key'' \<mapsto> VString ''a''],
          req_ID = 7, req_JSONRPC = ''2.0''\<rparr>"]
    by simp
qed

subsection \<open>The response envelope\<close>

text \<open>
  C5: for every decoded request that does not panic on parameter extraction, and for
  every implementation of \<open>Storage\<close>, \<open>HandleRequest\<close> encodes a response that echoes
  the request's id and has exactly one of result and error populated.
\<close>

theorem C5_exactly_one:
  "fst (HandleRequest storage s (Some req)) \<noteq> Panic \<Longrightarrow>
   \<exists>res. fst (HandleRequest storage s (Some req)) = Encoded res
     \<and> res_ID res = req_ID req
     \<and> (res_Result res = VNil) \<noteq> (res_Error res = None)"
proof -
  assume np: "fst (HandleRequest storage s (Some req)) \<noteq> Panic"
  consider (get) "req_Method req = ''get''" | (post) "req_Method req = ''post''"
    | (put) "req_Method req = ''put''" | (delete) "req_Method req = ''delete''"
    | (other) "req_Method req \<noteq> ''get''" "req_Method req \<noteq> ''post''"
        "req_Method req \<noteq> ''put''" "req_Method req \<noteq> ''delete''"
    by blast
  then show ?thesis
  proof cases
    case get
    with np show ?thesis
      by (auto simp: HandleRequest_get split: option.splits prod.splits)
  next
    case post
    with np show ?thesis
      by (auto simp: HandleRequest_post split: option.splits prod.splits)
  next
    case put
    with np show ?thesis
      by (auto simp: HandleRequest_put split: option.splits prod.splits)
  next
    case delete
    with np show ?thesis
      by (auto simp: HandleRequest_delete split: option.splits prod.splits)
  next
    case other
    then show ?thesis
      by (simp add: HandleRequest_default)
  qed
qed

theorem C5_exactly_one_witness:
  "fst (HandleRequest InMemoryStorage_methods \<lparr>data = [''a'' \<mapsto> ''1'']\<rparr>
          (Some \<lparr>req_Method = ''get'', req_Params = VMap [''key'' \<mapsto> VString ''a''],
                  req_ID = 3, req_JSONRPC = ''2.0''\<rparr>)) \<noteq> Panic
   \<and> (\<exists>res. fst (HandleRequest InMemoryStorage_methods \<lparr>data = [''a'' \<mapsto> ''1'']\<rparr>
          (Some \<lparr>req_Method = ''get'', req_Params = VMap [''key'' \<mapsto> VString ''a''],
                  req_ID = 3, req_JSONRPC = ''2.0''\<rparr>)) = Encoded res
        \<and> res_ID res = 3 \<and> res_Result res = VString ''1'' \<and> res_Error res = None)"
proof -
  have h: "fst (HandleRequest InMemoryStorage_methods \<lparr>data = [''a'' \<mapsto> ''1'']\<rparr>
          (Some \<lparr>req_Method = ''get'', req_Params = VMap [''key'' \<mapsto> VString ''a''],
                  req_ID = 3, req_JSONRPC = ''2.0''\<rparr>)) \<noteq> Panic"
    by (simp add: HandleRequest_def InMemoryStorage_methods_def InMemoryStorage_Get_def
        map_index_def)
  show ?thesis
    using h C5_exactly_one [OF h]
    by (simp add: HandleRequest_def InMemoryStorage_methods_def InMemoryStorage_Get_def
        map_index_def)
qed

text \<open>
  C6: for every decoded request whose method is none of \<open>get\<close>, \<open>post\<close>, \<open>put\<close>,
  \<open>delete\<close>, the response carries the error with code \<open>-32601\<close> and message
  \<open>Method not found\<close>, its result is absent, and the store is unchanged.
\<close>

theorem C6_unknown_method:
  "req_Method req \<notin> {''get'', ''post'', ''put'', ''delete''} \<Longrightarrow>
   HandleRequest storage s (Some req) =
     (Encoded \<lparr>res_JSONRPC = ''2.0'', res_Result = VNil,
        res_Error = Some \<lparr>err_Code = - 32601, err_Message = ''Method not found''\<rparr>,
        res_ID = req_ID req\<rparr>, s)"
  by (simp add: HandleRequest_default)

theorem C6_unknown_method_witness:
  "''createUser'' \<notin> {''get'', ''post'', ''put'', ''delete''}
   \<and> HandleRequest InMemoryStorage_methods \<lparr>data = [''a'' \<mapsto> ''1'']\<rparr>
        (Some \<lparr>req_Method = ''createUser'', req_Params = VMap [''name'' \<mapsto> VString ''x''],
                req_ID = 5, req_JSONRPC = ''2.0''\<rparr>)
       = (Encoded \<lparr>res_JSONRPC = ''2.0'', res_Result = VNil,
            res_Error = Some \<lparr>err_Code = - 32601, err_Message = ''Method not found''\<rparr>,
            res_ID = 5\<rparr>, \<lparr>data = [''a'' \<mapsto> ''1'']\<rparr>)"
proof -
  have h: "req_Method \<lparr>req_Method = ''createUser'',
              req_Params = VMap [''name'' \<mapsto> VString ''x''],
              req_ID = 5, req_JSONRPC = ''2.0''\<rparr> \<notin> {''get'', ''post'', ''put'', ''delete''}"
    by simp
  show ?thesis
    using C6_unknown_method [OF h, of InMemoryStorage_methods "\<lparr>data = [''a'' \<mapsto> ''1'']\<rparr>"]
    by simp
qed

subsection \<open>Malformed parameters\<close>

text \<open>
  C7: there are decoded requests on which \<open>HandleRequest\<close> panics instead of
  encoding a response.  Whenever the extraction of \<open>key\<close> fails in the \<open>get\<close> or
  \<open>delete\<close> branch, or the extraction of \<open>key\<close> or \<open>value\<close> fails in the \<open>post\<close>
  or \<open>put\<close> branch (parameters that are not an object, a missing field, a field
  that is not a string), the call panics and the store is untouched.  The instance
  below gives three such requests: \<open>get\<close> without \<open>key\<close>, \<open>get\<close> with a numeric
  \<open>key\<close>, and \<open>post\<close> without \<open>value\<close>.
\<close>

theorem C7_params_panic:
  "(req_Method req \<in> {''get'', ''delete''} \<and> params_string (req_Params req) ''key'' = None
      \<longrightarrow> HandleRequest storage s (Some req) = (Panic, s))
   \<and> (req_Method req \<in> {''post'', ''put''}
        \<and> (params_string (req_Params req) ''key'' = None
             \<or> params_string (req_Params req) ''value'' = None)
      \<longrightarrow> HandleRequest storage s (Some req) = (Panic, s))"
  by (auto simp: HandleRequest_get HandleRequest_delete HandleRequest_post HandleRequest_put
      split: option.splits)

theorem C7_params_panic_witness:
  "params_string (VMap Map.empty) ''key'' = None
   \<and> HandleRequest InMemoryStorage_methods NewInMemoryStorage
        (Some \<lparr>req_Method = ''get'', req_Params = VMap Map.empty,
                req_ID = 1, req_JSONRPC = ''2.0''\<rparr>) = (Panic, NewInMemoryStorage)
   \<and> params_string (VMap [''key'' \<mapsto> VFloat64 5]) ''key'' = None
   \<and> HandleRequest InMemoryStorage_methods NewInMemoryStorage
        (Some \<lparr>req_Method = ''get'', req_Params = VMap [''key'' \<mapsto> VFloat64 5],
                req_ID = 2, req_JSONRPC = ''2.0''\<rparr>) = (Panic, NewInMemoryStorage)
   \<and> params_string (VMap [''key'' \<mapsto> VString ''a'']) ''value'' = None
   \<and> HandleRequest InMemoryStorage_methods NewInMemoryStorage
        (Some \<lparr>req_Method = ''post'', req_Params = VMap [''key'' \<mapsto> VString ''a''],
                req_ID = 3, req_JSONRPC = ''2.0''\<rparr>) = (Panic, NewInMemoryStorage)"
proof -
  have h1: "params_string (VMap Map.empty) ''key'' = None"
    by (simp add: params_string_def map_index_def)
  have h2: "params_string (VMap [''key'' \<mapsto> VFloat64 5]) ''key'' = None"
    by (simp add: params_string_def map_index_def)
  have h3: "params_string (VMap [''key'' \<mapsto> VString ''a'']) ''value'' = None"
    by (simp add: params_string_def map_index_def)
  show ?thesis
    using h1 h2 h3
      C7_params_panic [of "\<lparr>req_Method = ''get'', req_Params = VMap Map.empty,
          req_ID = 1, req_JSONRPC = ''2.0''\<rparr>" InMemoryStorage_methods NewInMemoryStorage]
      C7_params_panic [of "\<lparr>req_Method = ''get'',
          req_Params = VMap [''key'' \<mapsto> VFloat64 5],
          req_ID = 2, req_JSONRPC = ''2.0''\<rparr>" InMemoryStorage_methods NewInMemoryStorage]
      C7_params_panic [of "\<lparr>req_Method = ''post'',
          req_Params = VMap [''key'' \<mapsto> VString ''a''],
          req_ID = 3, req_JSONRPC = ''2.0''\<rparr>" InMemoryStorage_methods NewInMemoryStorage]
    by simp
qed

subsection \<open>The post and put branches\<close>

text \<open>
  C9: \<open>Post\<close> and \<open>Put\<close> of \<open>InMemoryStorage\<close> return no error on every store, key
  and value; so the dispatcher over this storage never takes the error branch of
  \<open>post\<close> or \<open>put\<close>: unless parameter extraction panics, the response has the
  result \<open>success\<close> and no error.
\<close>

theorem C9_post_put_succeed:
  "fst (InMemoryStorage_Post s k v) = None
   \<and> fst (InMemoryStorage_Put s k v) = None
   \<and> (req_Method req \<in> {''post'', ''put''} \<longrightarrow>
        fst (HandleRequest InMemoryStorage_methods s (Some req)) \<noteq> Panic \<longrightarrow>
        fst (HandleRequest InMemoryStorage_methods s (Some req)) =
          Encoded \<lparr>res_JSONRPC = ''2.0'', res_Result = VString ''success'',
                    res_Error = None, res_ID = req_ID req\<rparr>)"
  by (auto simp: HandleRequest_post HandleRequest_put InMemoryStorage_methods_def
      InMemoryStorage_Post_def InMemoryStorage_Put_def split: option.splits)

theorem C9_post_put_succeed_witness:
  "''put'' \<in> {''post'', ''put''}
   \<and> fst (HandleRequest InMemoryStorage_methods \<lparr>data = [''a'' \<mapsto> ''1'']\<rparr>
        (Some \<lparr>req_Method = ''put'',
                req_Params = VMap [''key'' \<mapsto> VString ''a'', ''value'' \<mapsto> VString ''2''],
                req_ID = 9, req_JSONRPC = ''2.0''\<rparr>)) \<noteq> Panic
   \<and> fst (HandleRequest InMemoryStorage_methods \<lparr>data = [''a'' \<mapsto> ''1'']\<rparr>
        (Some \<lparr>req_Method = ''put'',
                req_Params = VMap [''key'' \<mapsto> VString ''a'', ''value'' \<mapsto> VString ''2''],
                req_ID = 9, req_JSONRPC = ''2.0''\<rparr>))
       = Encoded \<lparr>res_JSONRPC = ''2.0'', res_Result = VString ''success'',
                   res_Error = None, res_ID = 9\<rparr>"
proof -
  have h: "fst (HandleRequest InMemoryStorage_methods \<lparr>data = [''a'' \<mapsto> ''1'']\<rparr>
        (Some \<lparr>req_Method = ''put'',
                req_Params = VMap [''key'' \<mapsto> VString ''a'', ''value'' \<mapsto> VString ''2''],
                req_ID = 9, req_JSONRPC = ''2.0''\<rparr>)) \<noteq> Panic"
    by (simp add: HandleRequest_def InMemoryStorage_methods_def InMemoryStorage_Put_def
        map_index_def)
  show ?thesis
    using h
      C9_post_put_succeed [of "\<lparr>data = [''a'' \<mapsto> ''1'']\<rparr>" "''a''" "''2''"
        "\<lparr>req_Method = ''put'',
          req_Params = VMap [''key'' \<mapsto> VString ''a'', ''value'' \<mapsto> VString ''2''],
          req_ID = 9, req_JSONRPC = ''2.0''\<rparr>"]
    by simp
qed

end
